theory Spec2Isabelle
  imports Main "HOL-Library.AList"
begin

section \<open>Exceptions, the outside world and calls to code outside the core\<close>

text \<open>
  The core (\<^verbatim>\<open>collectors/base_collector.py\<close>, \<^verbatim>\<open>analyzers/base_analyzer.py\<close>,
  \<^verbatim>\<open>scheduler/jobs.py\<close>) calls code it does not contain: the bodies of the units
  (\<^verbatim>\<open>validate_config\<close>, \<^verbatim>\<open>collect\<close>, \<^verbatim>\<open>analyze\<close>), the memory store and the report
  delegates.

  What a call raises is an \<open>Exception\<close>, an instance of Python's \<^verbatim>\<open>Exception\<close> given by its
  \<^verbatim>\<open>str(e)\<close>, or a \<open>BaseException\<close>, an instance of a class outside \<^verbatim>\<open>Exception\<close> given
  by the name of its class and its \<^verbatim>\<open>str(e)\<close>, such as \<^verbatim>\<open>asyncio.CancelledError\<close>. The
  handlers of the core are all \<^verbatim>\<open>except Exception\<close> and catch the first kind only.
  \<^verbatim>\<open>KeyboardInterrupt\<close> and \<^verbatim>\<open>SystemExit\<close>, which stop the event loop itself, are not
  modelled.
\<close>

datatype exn = Exception string | BaseException string string

primrec str :: "exn \<Rightarrow> string" where
  "str (Exception s) = s"
| "str (BaseException c s) = s"

text \<open>
  The world carries the wall clock read by \<^verbatim>\<open>datetime.now()\<close>, an arbitrary environment
  \<open>env\<close> that the outside code may read and change, \<open>calls\<close>, the trace of the calls the
  core has made to outside code, in order, and \<open>schedule\<close>, the order in which the event
  loop resumes the tasks of a \<^verbatim>\<open>gather\<close>. Calls to the logger are left out: they return
  nothing and no result depends on them.
\<close>

type_synonym timestamp = nat

datatype call = Call string string

record 'e world =
  clock :: timestamp
  env :: 'e
  calls :: "call list"
  schedule :: "nat list"

text \<open>
  A coroutine, as far as it has run: finished with a result, or suspended at an
  \<^verbatim>\<open>await\<close>. Resumed in a world \<open>w\<close>, a suspended coroutine \<open>Await f k\<close> runs to its next
  suspension point or to its end: it leaves the world \<open>f w\<close> and is then \<open>k w\<close>. A
  coroutine that has not started is suspended before its first statement. The body of
  a unit, \<open>store\<close> and \<open>generate\<close> are coroutines that return or raise.
\<close>

datatype ('r, 'e) coro =
  Done 'r
| Await "'e world \<Rightarrow> 'e world" "'e world \<Rightarrow> ('r, 'e) coro"

type_synonym ('x, 'e) body = "(exn + 'x, 'e) coro"

text \<open>\<^verbatim>\<open>await c\<close> outside any \<^verbatim>\<open>gather\<close>: the coroutine runs to its end.\<close>

primrec exec :: "('r, 'e) coro \<Rightarrow> 'e world \<Rightarrow> 'r \<times> 'e world" where
  "exec (Done r) w = (r, w)"
| "exec (Await f k) w = exec (k w) (f w)"

text \<open>
  One run of the event loop on a coroutine: resumed in the world \<open>w\<close>, it runs to its
  next suspension point or to its end. A finished coroutine stays as it is.
\<close>

definition resume :: "('r, 'e) coro \<Rightarrow> 'e world \<Rightarrow> ('r, 'e) coro \<times> 'e world" where
  "resume c w = (case c of Done r \<Rightarrow> (Done r, w) | Await f k \<Rightarrow> (k w, f w))"

primrec finished :: "('r, 'e) coro \<Rightarrow> bool" where
  "finished (Done r) = True"
| "finished (Await f k) = False"

text \<open>
  \<^verbatim>\<open>x = await c; rest\<close>, for a coroutine \<open>c\<close> that stands in the world \<open>w\<close>. When \<open>c\<close>
  finishes with \<open>r\<close> in a world \<open>w'\<close>, the rest \<open>g r w'\<close> goes on from there in the same
  run, to its own first suspension point: the end of \<open>c\<close> is no suspension point.
\<close>

primrec bindw ::
  "('r, 'e) coro \<Rightarrow> ('r \<Rightarrow> 'e world \<Rightarrow> ('s, 'e) coro) \<Rightarrow> 'e world \<Rightarrow> ('s, 'e) coro" where
  "bindw (Done r) g w = g r w"
| "bindw (Await f k) g w =
     Await (\<lambda>w'. if finished (k w') then snd (resume (bindw (k w') g (f w')) (f w')) else f w')
           (\<lambda>w'. if finished (k w') then fst (resume (bindw (k w') g (f w')) (f w'))
                  else bindw (k w') g (f w'))"

text \<open>
  A task: a coroutine object that is started when the event loop first runs it, as the
  arguments of \<^verbatim>\<open>gather\<close> are. \<open>start w\<close> is the coroutine started in the world \<open>w\<close>.
\<close>

definition create_task :: "('e world \<Rightarrow> ('r, 'e) coro) \<Rightarrow> ('r, 'e) coro" where
  "create_task start =
     Await (\<lambda>w. snd (resume (start w) w)) (\<lambda>w. fst (resume (start w) w))"

text \<open>
  A call of outside code is entered in the trace when the coroutine starts. Only the
  core writes the trace: what the outside code does to it is discarded.
\<close>

primrec protect :: "('r, 'e) coro \<Rightarrow> ('r, 'e) coro" where
  "protect (Done r) = Done r"
| "protect (Await f k) = Await (\<lambda>w. (f w)\<lparr>calls := calls w\<rparr>) (\<lambda>w. protect (k w))"

definition traced :: "call \<Rightarrow> ('r, 'e) coro \<Rightarrow> ('r, 'e) coro" where
  "traced c b =
     (case protect b of
        Done r \<Rightarrow> Await (\<lambda>w. w\<lparr>calls := calls w @ [c]\<rparr>) (\<lambda>w. Done r)
      | Await f k \<Rightarrow> Await (\<lambda>w. (f w)\<lparr>calls := calls w @ [c]\<rparr>) k)"

text \<open>The call awaited outside any \<^verbatim>\<open>gather\<close>: its result and the world it leaves.\<close>

definition invoke :: "call \<Rightarrow> ('r, 'e) coro \<Rightarrow> 'e world \<Rightarrow> 'r \<times> 'e world" where
  "invoke c b w = exec (traced c b) w"

section \<open>Collection envelope and collection units (\<^verbatim>\<open>base_collector.py\<close>)\<close>

datatype CollectorStatus = PENDING | RUNNING | SUCCESS | FAILED | PARTIAL

record 'a CollectorResult =
  status :: CollectorStatus
  data :: "'a list"
  errors :: "string list"
  metadata :: "(string \<times> string) list"
  collected_at :: timestamp
  items_count :: int
  source :: string

text \<open>\<^verbatim>\<open>__post_init__\<close>: \<^verbatim>\<open>if not self.items_count: self.items_count = len(self.data)\<close>.\<close>

definition CollectorResult_post_init :: "'a CollectorResult \<Rightarrow> 'a CollectorResult" where
  "CollectorResult_post_init self =
     (if items_count self = 0 then self\<lparr>items_count := int (length (data self))\<rparr> else self)"

text \<open>
  The generated \<^verbatim>\<open>__init__\<close> of the dataclass. \<open>status\<close> is required; every other
  argument is a keyword with a default, \<open>None\<close> here when the caller leaves it out:
  \<^verbatim>\<open>data=[]\<close>, \<^verbatim>\<open>errors=[]\<close>, \<^verbatim>\<open>metadata={}\<close>, \<^verbatim>\<open>collected_at=datetime.now()\<close>
  (the argument \<open>now\<close>), \<^verbatim>\<open>items_count=0\<close>, \<^verbatim>\<open>source=""\<close>.
\<close>

definition CollectorResult_init ::
  "timestamp \<Rightarrow> CollectorStatus \<Rightarrow> 'a list option \<Rightarrow> string list option \<Rightarrow>
   (string \<times> string) list option \<Rightarrow> timestamp option \<Rightarrow> int option \<Rightarrow> string option \<Rightarrow>
   'a CollectorResult" where
  "CollectorResult_init now st d e m t n s =
     CollectorResult_post_init
       \<lparr>CollectorResult.status = st,
        data = (case d of None \<Rightarrow> [] | Some x \<Rightarrow> x),
        errors = (case e of None \<Rightarrow> [] | Some x \<Rightarrow> x),
        metadata = (case m of None \<Rightarrow> [] | Some x \<Rightarrow> x),
        collected_at = (case t of None \<Rightarrow> now | Some x \<Rightarrow> x),
        items_count = (case n of None \<Rightarrow> 0 | Some x \<Rightarrow> x),
        source = (case s of None \<Rightarrow> [] | Some x \<Rightarrow> x)\<rparr>"

text \<open>
  A collection unit: the class attribute \<^verbatim>\<open>name\<close>, the attributes \<^verbatim>\<open>config\<close> and
  \<^verbatim>\<open>_status\<close> (here \<open>u_status\<close>), and the two abstract methods a concrete unit supplies.
\<close>

record ('a, 'e) BaseCollector =
  name :: string
  config :: "(string \<times> string) list"
  u_status :: CollectorStatus
  validate_config :: "(bool, 'e) body"
  collect :: "('a CollectorResult, 'e) body"

definition BaseCollector_init ::
  "string \<Rightarrow> (string \<times> string) list option \<Rightarrow> (bool, 'e) body \<Rightarrow>
   ('a CollectorResult, 'e) body \<Rightarrow> ('a, 'e) BaseCollector" where
  "BaseCollector_init nm cfg v c =
     \<lparr>BaseCollector.name = nm,
      config = (case cfg of None \<Rightarrow> [] | Some x \<Rightarrow> x),
      u_status = CollectorStatus.PENDING,
      validate_config = v,
      collect = c\<rparr>"

text \<open>
  The coroutine of \<^verbatim>\<open>BaseCollector.run\<close> finishes with what \<^verbatim>\<open>run\<close> returns or raises
  and with the unit as \<^verbatim>\<open>run\<close> leaves it.
\<close>

type_synonym ('a, 'e) collector_task =
  "((exn + 'a CollectorResult) \<times> ('a, 'e) BaseCollector, 'e) coro"

text \<open>
  The handler \<^verbatim>\<open>except Exception as e\<close>, reached in the world \<open>w\<close>: for an \<open>Exception\<close>
  it sets \<^verbatim>\<open>_status\<close> to \<^verbatim>\<open>FAILED\<close> and returns
  \<^verbatim>\<open>CollectorResult(status=FAILED, errors=[str(e)], source=self.name)\<close>; anything else
  passes it and leaves \<^verbatim>\<open>run\<close>.
\<close>

definition BaseCollector_run_except ::
  "('a, 'e) BaseCollector \<Rightarrow> exn \<Rightarrow> 'e world \<Rightarrow> ('a, 'e) collector_task" where
  "BaseCollector_run_except self e w =
     (case e of
        Exception s \<Rightarrow>
          Done (Inr (CollectorResult_init (clock w) CollectorStatus.FAILED None (Some [s]) None None
                       None (Some (BaseCollector.name self))),
                self\<lparr>u_status := CollectorStatus.FAILED\<rparr>)
      | BaseException c s \<Rightarrow> Done (Inl (BaseException c s), self))"

text \<open>
  The \<^verbatim>\<open>try\<close> block of \<^verbatim>\<open>BaseCollector.run\<close>, started in the world \<open>w\<close>, with its
  handler: an exception of \<^verbatim>\<open>validate_config\<close>, the \<^verbatim>\<open>ValueError\<close> raised for a false
  \<^verbatim>\<open>validate_config\<close> and an exception of \<^verbatim>\<open>collect\<close> go to the handler.
\<close>

definition BaseCollector_run_try ::
  "('a, 'e) BaseCollector \<Rightarrow> 'e world \<Rightarrow> ('a, 'e) collector_task" where
  "BaseCollector_run_try self w =
     bindw (traced (Call (BaseCollector.name self) ''validate_config'') (validate_config self))
       (\<lambda>r w1.
          case r of
            Inl e \<Rightarrow> BaseCollector_run_except self e w1
          | Inr ok \<Rightarrow>
              if \<not> ok
              then BaseCollector_run_except self
                     (Exception (''Invalid configuration for '' @ BaseCollector.name self)) w1
              else
                bindw (traced (Call (BaseCollector.name self) ''collect'') (collect self))
                  (\<lambda>r w2.
                     case r of
                       Inl e \<Rightarrow> BaseCollector_run_except self e w2
                     | Inr result \<Rightarrow>
                         (let result = result\<lparr>CollectorResult.source := BaseCollector.name self\<rparr>
                          in Done (Inr result,
                                   self\<lparr>u_status := (if CollectorResult.errors result \<noteq> []
                                                      then CollectorStatus.PARTIAL
                                                      else CollectorStatus.SUCCESS)\<rparr>)))
                  w1)
       w"

text \<open>
  The coroutine of \<^verbatim>\<open>BaseCollector.run\<close> started in the world \<open>w\<close>: it sets \<^verbatim>\<open>_status\<close>
  to \<^verbatim>\<open>RUNNING\<close> and enters the \<^verbatim>\<open>try\<close> block.
\<close>

definition BaseCollector_run_coro ::
  "('a, 'e) BaseCollector \<Rightarrow> 'e world \<Rightarrow> ('a, 'e) collector_task" where
  "BaseCollector_run_coro self w =
     BaseCollector_run_try (self\<lparr>u_status := CollectorStatus.RUNNING\<rparr>) w"

text \<open>
  \<^verbatim>\<open>await collector.run()\<close> outside any \<^verbatim>\<open>gather\<close>: what \<^verbatim>\<open>run\<close> returns (\<open>Inr\<close>) or
  raises (\<open>Inl\<close>), the unit and the world it leaves.
\<close>

definition BaseCollector_run ::
  "('a, 'e) BaseCollector \<Rightarrow> 'e world \<Rightarrow>
   (exn + 'a CollectorResult) \<times> ('a, 'e) BaseCollector \<times> 'e world" where
  "BaseCollector_run self w =
     (case exec (BaseCollector_run_coro self w) w of ((r, self'), w') \<Rightarrow> (r, self', w'))"

text \<open>
  \<^verbatim>\<open>_create_result\<close>, the helper a unit body may use to build its envelope:
  \<^verbatim>\<open>status = SUCCESS if not errors else PARTIAL\<close>.
\<close>

definition create_result ::
  "('a, 'e) BaseCollector \<Rightarrow> timestamp \<Rightarrow> 'a list \<Rightarrow> string list option \<Rightarrow>
   (string \<times> string) list option \<Rightarrow> 'a CollectorResult" where
  "create_result self now d e m =
     CollectorResult_init now
       (if e = None \<or> e = Some [] then CollectorStatus.SUCCESS else CollectorStatus.PARTIAL)
       (Some d)
       (Some (case e of None \<Rightarrow> [] | Some x \<Rightarrow> x))
       (Some (case m of None \<Rightarrow> [] | Some x \<Rightarrow> x))
       None None (Some (BaseCollector.name self))"

section \<open>Analysis envelope and analysis units (\<^verbatim>\<open>base_analyzer.py\<close>)\<close>

datatype AnalysisStatus = PENDING | RUNNING | SUCCESS | FAILED | PARTIAL

record 'r AnalysisResult =
  status :: AnalysisStatus
  result :: "'r option"
  insights :: "string list"
  metadata :: "(string \<times> string) list"
  analyzed_at :: timestamp
  source :: string
  errors :: "string list"

text \<open>
  The generated \<^verbatim>\<open>__init__\<close>, with the defaults \<^verbatim>\<open>result=None\<close>, \<^verbatim>\<open>insights=[]\<close>,
  \<^verbatim>\<open>metadata={}\<close>, \<^verbatim>\<open>analyzed_at=datetime.now()\<close>, \<^verbatim>\<open>source=""\<close>, \<^verbatim>\<open>errors=[]\<close>.
\<close>

definition AnalysisResult_init ::
  "timestamp \<Rightarrow> AnalysisStatus \<Rightarrow> 'r option \<Rightarrow> string list option \<Rightarrow>
   (string \<times> string) list option \<Rightarrow> timestamp option \<Rightarrow> string option \<Rightarrow> string list option \<Rightarrow>
   'r AnalysisResult" where
  "AnalysisResult_init now st r i m t s e =
     \<lparr>AnalysisResult.status = st,
      result = r,
      insights = (case i of None \<Rightarrow> [] | Some x \<Rightarrow> x),
      metadata = (case m of None \<Rightarrow> [] | Some x \<Rightarrow> x),
      analyzed_at = (case t of None \<Rightarrow> now | Some x \<Rightarrow> x),
      source = (case s of None \<Rightarrow> [] | Some x \<Rightarrow> x),
      errors = (case e of None \<Rightarrow> [] | Some x \<Rightarrow> x)\<rparr>"

text \<open>
  An analysis unit. \<^verbatim>\<open>_last_result\<close> does not exist until \<^verbatim>\<open>run\<close> first sets it, and
  \<^verbatim>\<open>_last_results\<close> does not exist until the coordinator sets it: both are \<open>None\<close> while
  absent, which is what \<^verbatim>\<open>getattr(..., default)\<close> tests for. \<open>analyzed\<close> is no attribute
  of the class: it is the trace of the inputs \<^verbatim>\<open>analyze\<close> has been called with, in order,
  written by \<^verbatim>\<open>run\<close> when it makes the call.
\<close>

record ('d, 'r, 'e) BaseAnalyzer =
  name :: string
  config :: "(string \<times> string) list"
  u_status :: AnalysisStatus
  last_result :: "'r AnalysisResult option"
  last_results :: "'r list option"
  analyze :: "'d \<Rightarrow> ('r AnalysisResult, 'e) body"
  analyzed :: "'d list"

definition BaseAnalyzer_init ::
  "string \<Rightarrow> (string \<times> string) list option \<Rightarrow> ('d \<Rightarrow> ('r AnalysisResult, 'e) body) \<Rightarrow>
   ('d, 'r, 'e) BaseAnalyzer" where
  "BaseAnalyzer_init nm cfg a =
     \<lparr>BaseAnalyzer.name = nm,
      config = (case cfg of None \<Rightarrow> [] | Some x \<Rightarrow> x),
      u_status = AnalysisStatus.PENDING,
      last_result = None,
      last_results = None,
      analyze = a,
      analyzed = []\<rparr>"

text \<open>
  The \<^verbatim>\<open>try\<close> block of \<^verbatim>\<open>BaseAnalyzer.run\<close>, awaited outside any \<^verbatim>\<open>gather\<close>: \<open>Inl\<close> is
  an exception leaving the block.
\<close>

definition BaseAnalyzer_run_try ::
  "('d, 'r, 'e) BaseAnalyzer \<Rightarrow> 'd \<Rightarrow> 'e world \<Rightarrow>
   (exn + 'r AnalysisResult) \<times> ('d, 'r, 'e) BaseAnalyzer \<times> 'e world" where
  "BaseAnalyzer_run_try self d w =
     (let self = self\<lparr>analyzed := analyzed self @ [d]\<rparr> in
      case invoke (Call (BaseAnalyzer.name self) ''analyze'') (analyze self d) w of
        (Inl e, w1) \<Rightarrow> (Inl e, self, w1)
      | (Inr res, w1) \<Rightarrow>
          (let res = res\<lparr>AnalysisResult.source := BaseAnalyzer.name self\<rparr>;
               self = self\<lparr>last_result := Some res\<rparr>
           in (Inr res,
               self\<lparr>BaseAnalyzer.u_status := (if AnalysisResult.errors res \<noteq> []
                                                then AnalysisStatus.PARTIAL
                                                else AnalysisStatus.SUCCESS)\<rparr>,
               w1)))"

text \<open>
  \<^verbatim>\<open>BaseAnalyzer.run\<close>. The handler \<^verbatim>\<open>except Exception as e\<close> sets \<^verbatim>\<open>_status\<close> to
  \<^verbatim>\<open>FAILED\<close> and returns \<^verbatim>\<open>AnalysisResult(status=FAILED, errors=[str(e)],
  source=self.name)\<close>; anything else passes it and leaves \<^verbatim>\<open>run\<close>.
\<close>

definition BaseAnalyzer_run ::
  "('d, 'r, 'e) BaseAnalyzer \<Rightarrow> 'd \<Rightarrow> 'e world \<Rightarrow>
   (exn + 'r AnalysisResult) \<times> ('d, 'r, 'e) BaseAnalyzer \<times> 'e world" where
  "BaseAnalyzer_run self d w =
     (case BaseAnalyzer_run_try (self\<lparr>BaseAnalyzer.u_status := AnalysisStatus.RUNNING\<rparr>) d w of
        (Inr res, self', w') \<Rightarrow> (Inr res, self', w')
      | (Inl (Exception s), self', w') \<Rightarrow>
          (Inr (AnalysisResult_init (clock w') AnalysisStatus.FAILED None None None None
                  (Some (BaseAnalyzer.name self')) (Some [s])),
           self'\<lparr>BaseAnalyzer.u_status := AnalysisStatus.FAILED\<rparr>,
           w')
      | (Inl (BaseException c s), self', w') \<Rightarrow> (Inl (BaseException c s), self', w'))"

section \<open>The pipeline coordinator (\<^verbatim>\<open>scheduler/jobs.py\<close>)\<close>

subsection \<open>Data the coordinator handles\<close>

text \<open>
  Modelled from the spec: the class of the items of the \<^verbatim>\<open>hf_models\<close> category
  (\<^verbatim>\<open>collectors/huggingface_collector.py\<close>), a concrete data-source adapter and as such an
  external collaborator. The record holds the three attributes the analyze stage reads
  of an item. The items of the other three categories are of an arbitrary type \<open>'a\<close>.
\<close>

record hf_model =
  model_id :: string
  author :: string
  pipeline_tag :: string

text \<open>
  Modelled from the spec: the payload classes of the two analysis units
  (\<^verbatim>\<open>analyzers/insight_analyzer.py\<close>, \<^verbatim>\<open>analyzers/model_analyzer.py\<close>), external
  collaborators. Each record holds the attribute the coordinator reads, \<^verbatim>\<open>insights\<close> of
  an insight payload and \<^verbatim>\<open>model_name\<close> of a structural analysis, and is open to further
  fields. A payload object is truthy, so that \<^verbatim>\<open>if x.result:\<close> tests for \<open>None\<close>.
\<close>

record insight_payload =
  insights :: "string list"

record model_analysis =
  model_name :: string

text \<open>
  Modelled from the spec: the report descriptor \<^verbatim>\<open>{ file_path, title, status }\<close> a
  report delegate returns and the enumeration of report formats
  (\<^verbatim>\<open>generators/base_generator.py\<close>), of which the coordinator uses \<^verbatim>\<open>PPT\<close> only.
  \<open>status_value\<close> is \<^verbatim>\<open>report.status.value\<close>.
\<close>

record Report =
  file_path :: "string option"
  title :: string
  status_value :: string

datatype ReportFormat = PPT

text \<open>
  The values of the mapping the collect stage returns: the list of items of a source,
  or the list of error strings. A mapping is an association list in insertion order;
  \<open>[]\<close> is the empty dict \<^verbatim>\<open>{}\<close>.
\<close>

datatype 'a pyval = Items "'a list" | HfModels "hf_model list" | Strs "string list"

type_synonym 'a results = "(string \<times> 'a pyval) list"

fun len :: "'a pyval \<Rightarrow> nat" where
  "len (Items xs) = length xs"
| "len (HfModels xs) = length xs"
| "len (Strs xs) = length xs"

text \<open>The input \<^verbatim>\<open>model_data\<close> of a structural analysis, a dict of dicts of strings.\<close>

type_synonym model_data = "(string \<times> (string \<times> string) list) list"

definition model_data_of :: "'z hf_model_scheme \<Rightarrow> model_data" where
  "model_data_of model =
     [(''model_info'', [(''name'', model_id model), (''provider'', author model),
                        (''type'', pipeline_tag model)]),
      (''config'', [])]"

text \<open>
  The two values the coordinator stores: the time stamp and the counts per source, and
  the time stamp, the insight count and the number of structural analyses.
\<close>

datatype store_value =
  CollectionSummary timestamp "(string \<times> nat) list"
| AnalysisSummary timestamp nat nat

text \<open>
  Modelled from the spec: the memory store (\<^verbatim>\<open>memory/memory_store.py\<close>), the narrow
  capability \<^verbatim>\<open>store(key, value)\<close> that returns or fails.
\<close>

record 'e MemoryStore =
  store :: "string \<Rightarrow> store_value \<Rightarrow> (unit, 'e) body"

text \<open>
  Modelled from the spec: a report delegate (\<^verbatim>\<open>generators/\<close>), the narrow interface
  \<^verbatim>\<open>generate(payload, format)\<close> that returns a report descriptor or fails. A delegate
  that fails raises an \<^verbatim>\<open>Exception\<close>, given by its \<^verbatim>\<open>str(e)\<close>.
\<close>

record ('p, 'e) Generator =
  generate :: "'p \<Rightarrow> ReportFormat \<Rightarrow> (string + Report, 'e) coro"

subsection \<open>The coordinator and its state\<close>

text \<open>
  The coordinator. Its units are instances of the concrete unit classes, which are
  external collaborators: a unit is an instance of the base class with the two (one)
  abstract methods supplied, run by the \<open>run\<close> of the base class. \<^verbatim>\<open>_last_collection\<close>
  and \<^verbatim>\<open>_collected_data\<close> lose their underscore.
\<close>

record ('a, 'zi, 'zm, 'e) DailyJobManager =
  config :: "(string \<times> (string \<times> string) list) list"
  memory_store :: "'e MemoryStore option"
  ai_model_collector :: "('a, 'e) BaseCollector"
  github_collector :: "('a, 'e) BaseCollector"
  hf_collector :: "(hf_model, 'e) BaseCollector"
  arxiv_collector :: "('a, 'e) BaseCollector"
  insight_analyzer :: "('a results, 'zi insight_payload_scheme, 'e) BaseAnalyzer"
  model_analyzer :: "(model_data, 'zm model_analysis_scheme, 'e) BaseAnalyzer"
  insight_generator :: "('zi insight_payload_scheme, 'e) Generator"
  model_generator :: "('zm model_analysis_scheme, 'e) Generator"
  last_collection :: "(string \<times> timestamp) list"
  collected_data :: "'a results"

text \<open>\<^verbatim>\<open>__init__\<close>, with the units it constructs as arguments.\<close>

definition DailyJobManager_init ::
  "(string \<times> (string \<times> string) list) list \<Rightarrow> 'e MemoryStore option \<Rightarrow>
   ('a, 'e) BaseCollector \<Rightarrow> ('a, 'e) BaseCollector \<Rightarrow> (hf_model, 'e) BaseCollector \<Rightarrow>
   ('a, 'e) BaseCollector \<Rightarrow>
   ('a results, 'zi insight_payload_scheme, 'e) BaseAnalyzer \<Rightarrow>
   (model_data, 'zm model_analysis_scheme, 'e) BaseAnalyzer \<Rightarrow>
   ('zi insight_payload_scheme, 'e) Generator \<Rightarrow> ('zm model_analysis_scheme, 'e) Generator \<Rightarrow>
   ('a, 'zi, 'zm, 'e) DailyJobManager" where
  "DailyJobManager_init cfg ms c1 c2 c3 c4 a1 a2 g1 g2 =
     \<lparr>DailyJobManager.config = cfg, memory_store = ms,
      ai_model_collector = c1, github_collector = c2, hf_collector = c3, arxiv_collector = c4,
      insight_analyzer = a1, model_analyzer = a2,
      insight_generator = g1, model_generator = g2,
      last_collection = [], collected_data = []\<rparr>"

subsection \<open>Collect stage\<close>

text \<open>
  The coroutine of \<^verbatim>\<open>_safe_collect\<close> started in the world \<open>w\<close>: \<^verbatim>\<open>collector.run()\<close>; an
  \<^verbatim>\<open>Exception\<close> is logged and raised again, anything else passes the handler.
\<close>

definition safe_collect ::
  "string \<Rightarrow> ('a, 'e) BaseCollector \<Rightarrow> 'e world \<Rightarrow> ('a, 'e) collector_task" where
  "safe_collect nm collector w = BaseCollector_run_coro collector w"

text \<open>
  The event loop on four tasks. Each entry of the schedule names the task that is run
  next, to its next suspension point; an entry that names a finished task or no task
  changes nothing.
\<close>

fun event_loop ::
  "nat list \<Rightarrow> ('r1, 'e) coro \<times> ('r2, 'e) coro \<times> ('r3, 'e) coro \<times> ('r4, 'e) coro \<Rightarrow> 'e world \<Rightarrow>
   (('r1, 'e) coro \<times> ('r2, 'e) coro \<times> ('r3, 'e) coro \<times> ('r4, 'e) coro) \<times> 'e world" where
  "event_loop [] ts w = (ts, w)"
| "event_loop (i # sched) (t1, t2, t3, t4) w =
     (if i = 0 then (case resume t1 w of (t1', w') \<Rightarrow> event_loop sched (t1', t2, t3, t4) w')
      else if i = 1 then (case resume t2 w of (t2', w') \<Rightarrow> event_loop sched (t1, t2', t3, t4) w')
      else if i = 2 then (case resume t3 w of (t3', w') \<Rightarrow> event_loop sched (t1, t2, t3', t4) w')
      else if i = 3 then (case resume t4 w of (t4', w') \<Rightarrow> event_loop sched (t1, t2, t3, t4') w')
      else event_loop sched (t1, t2, t3, t4) w)"

text \<open>
  \<^verbatim>\<open>await asyncio.gather(t1, t2, t3, t4, return_exceptions=True)\<close>: the event loop runs
  the tasks in the order of the schedule of the world, and \<^verbatim>\<open>gather\<close> waits for all of
  them: the tasks the schedule has left unfinished are run to their end in turn. The
  results come in the order of the arguments, whatever the order of completion. The
  schedule is any list, so that what holds for every world holds for every way the
  event loop may interleave the four tasks.
\<close>

definition gather ::
  "('r1, 'e) coro \<times> ('r2, 'e) coro \<times> ('r3, 'e) coro \<times> ('r4, 'e) coro \<Rightarrow> 'e world \<Rightarrow>
   ('r1 \<times> 'r2 \<times> 'r3 \<times> 'r4) \<times> 'e world" where
  "gather ts w =
     (case event_loop (schedule w) ts w of
        ((t1, t2, t3, t4), w0) \<Rightarrow>
          (case exec t1 w0 of
             (r1, w1) \<Rightarrow>
               (case exec t2 w1 of
                  (r2, w2) \<Rightarrow>
                    (case exec t3 w2 of
                       (r3, w3) \<Rightarrow>
                         (case exec t4 w3 of
                            (r4, w4) \<Rightarrow> ((r1, r2, r3, r4), w4))))))"

text \<open>
  The four tasks of the stage, \<^verbatim>\<open>_safe_collect(name, collector)\<close> for each unit, not yet
  started.
\<close>

definition collect_tasks ::
  "('a, 'zi, 'zm, 'e) DailyJobManager \<Rightarrow>
   ('a, 'e) collector_task \<times> ('a, 'e) collector_task \<times> (hf_model, 'e) collector_task
   \<times> ('a, 'e) collector_task" where
  "collect_tasks self =
     (create_task (safe_collect ''ai_models'' (ai_model_collector self)),
      create_task (safe_collect ''github'' (github_collector self)),
      create_task (safe_collect ''huggingface'' (hf_collector self)),
      create_task (safe_collect ''arxiv'' (arxiv_collector self)))"

text \<open>\<^verbatim>\<open>results["errors"].append(msg)\<close>; the key is in the literal the stage starts from.\<close>

definition append_error :: "string \<Rightarrow> 'a results \<Rightarrow> 'a results" where
  "append_error msg res =
     (case map_of res ''errors'' of
        Some (Strs es) \<Rightarrow> AList.update ''errors'' (Strs (es @ [msg])) res
      | _ \<Rightarrow> res)"

text \<open>
  The \<^verbatim>\<open>AttributeError\<close> of reading an attribute that an object of the class \<open>cls\<close>
  does not have; \<open>CHR 0x27\<close> is the single quote of its message.
\<close>

definition attribute_error :: "string \<Rightarrow> string \<Rightarrow> exn" where
  "attribute_error cls attr =
     Exception ([CHR 0x27] @ cls @ [CHR 0x27] @ '' object has no attribute ''
                @ [CHR 0x27] @ attr @ [CHR 0x27])"

text \<open>
  The body of the aggregation loop, for one pair of \<^verbatim>\<open>zip(names, collected)\<close>. An element
  of \<^verbatim>\<open>collected\<close> is the envelope a task returned (\<open>Inr\<close>), of which only
  \<^verbatim>\<open>result.data\<close> is read, or what the task raised (\<open>Inl\<close>). An instance of
  \<^verbatim>\<open>Exception\<close> is entered in the errors. Anything else, an envelope or not, fails
  \<^verbatim>\<open>isinstance(result, Exception)\<close> and is truthy (\<^verbatim>\<open>CollectorResult\<close> and the exception
  classes define neither \<^verbatim>\<open>__bool__\<close> nor \<^verbatim>\<open>__len__\<close>), and \<^verbatim>\<open>result.data\<close> is read
  of it: for what is no envelope that raises \<^verbatim>\<open>AttributeError\<close>, outside any \<^verbatim>\<open>try\<close>.
\<close>

definition aggregate :: "string \<Rightarrow> exn + 'a pyval \<Rightarrow> 'a results \<Rightarrow> exn + 'a results" where
  "aggregate nm r res =
     (case r of
        Inl (Exception s) \<Rightarrow> Inr (append_error (nm @ '': '' @ s) res)
      | Inl (BaseException c s) \<Rightarrow>
          if nm = ''ai_models'' \<or> nm = ''github'' \<or> nm = ''huggingface'' \<or> nm = ''arxiv''
          then Inl (attribute_error c ''data'')
          else Inr res
      | Inr d \<Rightarrow>
          if nm = ''ai_models'' then Inr (AList.update ''models'' d res)
          else if nm = ''github'' then Inr (AList.update ''repos'' d res)
          else if nm = ''huggingface'' then Inr (AList.update ''hf_models'' d res)
          else if nm = ''arxiv'' then Inr (AList.update ''papers'' d res)
          else Inr res)"

text \<open>The loop: an exception of a pass leaves the loop and the stage.\<close>

fun aggregate_loop :: "(string \<times> (exn + 'a pyval)) list \<Rightarrow> 'a results \<Rightarrow> exn + 'a results" where
  "aggregate_loop [] res = Inr res"
| "aggregate_loop ((nm, r) # rest) res =
     (case aggregate nm r res of
        Inl e \<Rightarrow> Inl e
      | Inr res' \<Rightarrow> aggregate_loop rest res')"

definition count_of :: "'a results \<Rightarrow> string \<Rightarrow> nat" where
  "count_of res k = (case map_of res k of Some v \<Rightarrow> len v | None \<Rightarrow> 0)"

text \<open>
  \<^verbatim>\<open>run_collection_job\<close>. The units are objects: each is left as its task has left it,
  also when the stage raises. After the loop the stage commits \<^verbatim>\<open>_collected_data\<close> and
  \<^verbatim>\<open>_last_collection["all"]\<close> and then, if a memory store is configured, awaits its
  \<^verbatim>\<open>store\<close> outside any \<^verbatim>\<open>try\<close>.
\<close>

definition run_collection_job ::
  "('a, 'zi, 'zm, 'e) DailyJobManager \<Rightarrow> 'e world \<Rightarrow>
   (exn + 'a results) \<times> ('a, 'zi, 'zm, 'e) DailyJobManager \<times> 'e world" where
  "run_collection_job self w =
     (let start_time = clock w;
          res0 = [(''models'', Items []), (''papers'', Items []), (''repos'', Items []),
                  (''hf_models'', HfModels []), (''errors'', Strs [])];
          (((r1, c1), (r2, c2), (r3, c3), (r4, c4)), w4) = gather (collect_tasks self) w;
          self = self\<lparr>ai_model_collector := c1, github_collector := c2, hf_collector := c3,
                      arxiv_collector := c4\<rparr>;
          collected = [map_sum id (\<lambda>r. Items (data r)) r1, map_sum id (\<lambda>r. Items (data r)) r2,
                       map_sum id (\<lambda>r. HfModels (data r)) r3, map_sum id (\<lambda>r. Items (data r)) r4]
      in case aggregate_loop (zip [''ai_models'', ''github'', ''huggingface'', ''arxiv''] collected)
                res0 of
           Inl e \<Rightarrow> (Inl e, self, w4)
         | Inr res \<Rightarrow>
             (let self = self\<lparr>collected_data := res,
                              last_collection :=
                                AList.update ''all'' start_time (last_collection self)\<rparr>
              in case memory_store self of
                   None \<Rightarrow> (Inr res, self, w4)
                 | Some ms \<Rightarrow>
                     (case invoke (Call ''memory_store'' ''store'')
                             (store ms ''last_collection''
                                (CollectionSummary start_time
                                   [(''models'', count_of res ''models''),
                                    (''papers'', count_of res ''papers''),
                                    (''repos'', count_of res ''repos''),
                                    (''hf_models'', count_of res ''hf_models'')])) w4 of
                        (Inl e, w5) \<Rightarrow> (Inl e, self, w5)
                      | (Inr u, w5) \<Rightarrow> (Inr res, self, w5))))"

subsection \<open>Analyze stage\<close>

text \<open>
  The mapping the stage returns: \<^verbatim>\<open>{"error": ...}\<close> when there is nothing to analyze,
  else \<^verbatim>\<open>{"insights": ..., "model_analyses": ..., "errors": ...}\<close>.
\<close>

datatype ('r, 'm) analysis_results =
  ErrorOnly string
| AnalysisResults "'r option" "'m list" "string list"

text \<open>
  \<^verbatim>\<open>self._collected_data.get("hf_models", [])\<close>. The key is bound by the collect stage
  only, to the data of the \<^verbatim>\<open>huggingface\<close> unit.
\<close>

definition get_hf_models :: "'a results \<Rightarrow> hf_model list" where
  "get_hf_models d = (case map_of d ''hf_models'' of Some (HfModels xs) \<Rightarrow> xs | _ \<Rightarrow> [])"

text \<open>
  The loop over the models: each pass builds \<^verbatim>\<open>model_data\<close>, runs the structural unit
  and appends a payload that is not \<open>None\<close>. An \<^verbatim>\<open>Exception\<close> of the pass is logged and
  the loop goes on; anything else passes the handler and leaves the loop and the stage.
\<close>

fun analyze_models ::
  "(model_data, 'm, 'e) BaseAnalyzer \<Rightarrow> 'z hf_model_scheme list \<Rightarrow> 'm list \<Rightarrow> 'e world \<Rightarrow>
   (exn + 'm list) \<times> (model_data, 'm, 'e) BaseAnalyzer \<times> 'e world" where
  "analyze_models ma [] acc w = (Inr acc, ma, w)"
| "analyze_models ma (model # rest) acc w =
     (case BaseAnalyzer_run ma (model_data_of model) w of
        (Inl (Exception s), ma', w') \<Rightarrow> analyze_models ma' rest acc w'
      | (Inl (BaseException c s), ma', w') \<Rightarrow> (Inl (BaseException c s), ma', w')
      | (Inr analysis_result, ma', w') \<Rightarrow>
          analyze_models ma' rest
            (case result analysis_result of Some p \<Rightarrow> acc @ [p] | None \<Rightarrow> acc) w')"

text \<open>
  \<^verbatim>\<open>run_analysis_job\<close>. The run of the insight unit stands in a \<^verbatim>\<open>try\<close> whose handler
  is \<^verbatim>\<open>except Exception\<close>: an \<^verbatim>\<open>Exception\<close> is entered in the errors, anything else
  leaves the stage. The units are objects: each is left as its \<^verbatim>\<open>run\<close> has left it,
  also when the stage raises.
\<close>

definition run_analysis_job ::
  "('a, 'zi, 'zm, 'e) DailyJobManager \<Rightarrow> 'e world \<Rightarrow>
   (exn + ('zi insight_payload_scheme, 'zm model_analysis_scheme) analysis_results)
   \<times> ('a, 'zi, 'zm, 'e) DailyJobManager \<times> 'e world" where
  "run_analysis_job self w =
     (let start_time = clock w in
      if collected_data self = [] then (Inr (ErrorOnly ''No data available''), self, w)
      else
        (case BaseAnalyzer_run (insight_analyzer self) (collected_data self) w of
           (Inl (BaseException c s), ia, w1) \<Rightarrow>
             (Inl (BaseException c s), self\<lparr>insight_analyzer := ia\<rparr>, w1)
         | (ir, ia, w1) \<Rightarrow>
             (let (ins, errs) = (case ir of
                                   Inl e \<Rightarrow> (None, [''Insight analysis: '' @ str e])
                                 | Inr insight_result \<Rightarrow> (result insight_result, []))
              in case analyze_models (model_analyzer self)
                        (take 5 (get_hf_models (collected_data self))) [] w1 of
                   (Inl e, ma, w2) \<Rightarrow>
                     (Inl e, self\<lparr>insight_analyzer := ia, model_analyzer := ma\<rparr>, w2)
                 | (Inr model_analyses_results, ma, w2) \<Rightarrow>
                     (let self = self\<lparr>insight_analyzer := ia,
                                      model_analyzer :=
                                        ma\<lparr>last_results := Some model_analyses_results\<rparr>\<rparr>;
                          res = AnalysisResults ins model_analyses_results errs
                      in case memory_store self of
                           None \<Rightarrow> (Inr res, self, w2)
                         | Some ms \<Rightarrow>
                             (let insight_count =
                                    (case ins of
                                       Some p \<Rightarrow> length (insight_payload.insights p)
                                     | None \<Rightarrow> 0)
                              in case invoke (Call ''memory_store'' ''store'')
                                        (store ms ''last_analysis''
                                           (AnalysisSummary start_time insight_count
                                              (length model_analyses_results))) w2 of
                                   (Inl e, w3) \<Rightarrow> (Inl e, self, w3)
                                 | (Inr u, w3) \<Rightarrow> (Inr res, self, w3))))))"

subsection \<open>Report stage\<close>

text \<open>A report descriptor is a dict of strings, \<open>None\<close> for a report without a file.\<close>

type_synonym descriptor = "(string \<times> string option) list"

record report_results =
  insight_report :: "descriptor option"
  model_reports :: "descriptor list"
  errors :: "string list"

fun report_models ::
  "('z model_analysis_scheme, 'e) Generator \<Rightarrow> 'z model_analysis_scheme list \<Rightarrow>
   descriptor list \<Rightarrow> 'e world \<Rightarrow> descriptor list \<times> 'e world" where
  "report_models g [] acc w = (acc, w)"
| "report_models g (model_analysis # rest) acc w =
     (case invoke (Call ''model_generator'' ''generate'') (generate g model_analysis PPT) w of
        (Inl e, w') \<Rightarrow> report_models g rest acc w'
      | (Inr report, w') \<Rightarrow>
          report_models g rest
            (acc @ [[(''path'', file_path report), (''model'', Some (model_name model_analysis)),
                     (''status'', Some (status_value report))]]) w')"

definition run_report_job ::
  "('a, 'zi, 'zm, 'e) DailyJobManager \<Rightarrow> 'e world \<Rightarrow> (exn + report_results) \<times> 'e world" where
  "run_report_job self w =
     (let analysis_data = last_result (insight_analyzer self);
          (rep, errs, w1) =
             (case analysis_data of
                None \<Rightarrow> (None, [], w)
              | Some ad \<Rightarrow>
                  (case result ad of
                     None \<Rightarrow> (None, [], w)
                   | Some payload \<Rightarrow>
                       (case invoke (Call ''insight_generator'' ''generate'')
                               (generate (insight_generator self) payload PPT) w of
                          (Inl e, w') \<Rightarrow> (None, [''Insight report generation: '' @ e], w')
                        | (Inr report, w') \<Rightarrow>
                            (Some [(''path'', file_path report), (''title'', Some (title report)),
                                   (''status'', Some (status_value report))], [], w'))));
          (reports, w2) =
             report_models (model_generator self)
               (case last_results (model_analyzer self) of None \<Rightarrow> [] | Some xs \<Rightarrow> xs) [] w1
      in (Inr \<lparr>insight_report = rep, model_reports = reports, errors = errs\<rparr>, w2))"

section \<open>Concrete units, coordinators and worlds\<close>

text \<open>
  A world at time 0 in which no call has been made, with an empty schedule: the tasks
  of a \<^verbatim>\<open>gather\<close> run to their end in turn. Its environment is a list of notes that a
  body may append to.
\<close>

definition world0 :: "string list world" where
  "world0 = \<lparr>clock = 0, env = [], calls = [], schedule = []\<rparr>"

text \<open>Bodies that return a fixed value, or raise a fixed exception, and touch nothing.\<close>

definition returns :: "'x \<Rightarrow> ('y + 'x, 'e) coro" where
  "returns x = Done (Inr x)"

definition raises :: "'y \<Rightarrow> ('y + 'x, 'e) coro" where
  "raises e = Done (Inl e)"

text \<open>
  A body that sends a request, awaits the response and then returns or raises: it notes
  both in the environment, with one suspension point in between.
\<close>

definition fetch :: "string \<Rightarrow> 'r \<Rightarrow> ('r, string list) coro" where
  "fetch nm r =
     Await (\<lambda>w. w\<lparr>env := env w @ [nm @ '' request'']\<rparr>)
       (\<lambda>w. Await (\<lambda>w. w\<lparr>env := env w @ [nm @ '' response'']\<rparr>) (\<lambda>w. Done r))"

text \<open>A unit whose configuration check fails, and whose body would return two items.\<close>

definition unconfigured_collector :: "(string, string list) BaseCollector" where
  "unconfigured_collector =
     BaseCollector_init ''github'' None (returns False)
       (returns (CollectorResult_init 0 CollectorStatus.SUCCESS (Some [''r1'', ''r2''])
                   None None None None None))"

text \<open>Units whose body raises an \<^verbatim>\<open>Exception\<close>.\<close>

definition crashing_collector :: "(string, string list) BaseCollector" where
  "crashing_collector =
     BaseCollector_init ''arxiv'' None (returns True) (raises (Exception ''Connection refused''))"

definition crashing_analyzer :: "(string, string, string list) BaseAnalyzer" where
  "crashing_analyzer =
     BaseAnalyzer_init ''insight_analyzer'' None (\<lambda>d. raises (Exception ''LLM timeout''))"

text \<open>Units whose body is cancelled: it raises \<^verbatim>\<open>asyncio.CancelledError\<close>.\<close>

definition cancelled_collector :: "(string, string list) BaseCollector" where
  "cancelled_collector =
     BaseCollector_init ''github'' None (returns True)
       (raises (BaseException ''CancelledError'' ''''))"

definition cancelled_analyzer :: "(string, string, string list) BaseAnalyzer" where
  "cancelled_analyzer =
     BaseAnalyzer_init ''insight_analyzer'' None
       (\<lambda>d. raises (BaseException ''CancelledError'' ''''))"

text \<open>
  A unit whose body returns one item and one non-fatal error and itself reports
  \<^verbatim>\<open>SUCCESS\<close>; and one whose body returns no error and itself reports \<^verbatim>\<open>FAILED\<close>.
\<close>

definition degraded_collector :: "(string, string list) BaseCollector" where
  "degraded_collector =
     BaseCollector_init ''huggingface'' None (returns True)
       (returns (CollectorResult_init 0 CollectorStatus.SUCCESS (Some [''m1''])
                   (Some [''rate limited'']) None None None None))"

definition mislabelled_analyzer :: "(string, string, string list) BaseAnalyzer" where
  "mislabelled_analyzer =
     BaseAnalyzer_init ''model_analyzer'' None
       (\<lambda>d. returns (AnalysisResult_init 0 AnalysisStatus.FAILED (Some d) None None None None None))"

text \<open>
  Four collection units as in the end-to-end scenario: the first returns ten items, the
  body of the second raises a network error, the third and the fourth return no item.
  Each body awaits the response to a request.
\<close>

definition ten_models :: "string list" where
  "ten_models = [''m0'', ''m1'', ''m2'', ''m3'', ''m4'', ''m5'', ''m6'', ''m7'', ''m8'', ''m9'']"

definition ai_models_unit :: "(string, string list) BaseCollector" where
  "ai_models_unit =
     BaseCollector_init ''ai_models'' None (returns True)
       (fetch ''ai_models''
          (Inr (CollectorResult_init 0 CollectorStatus.SUCCESS (Some ten_models)
                  None None None None None)))"

definition github_unit :: "(string, string list) BaseCollector" where
  "github_unit =
     BaseCollector_init ''github'' None (returns True)
       (fetch ''github'' (Inl (Exception ''Connection reset by peer'')))"

definition huggingface_unit :: "(hf_model, string list) BaseCollector" where
  "huggingface_unit =
     BaseCollector_init ''huggingface'' None (returns True)
       (fetch ''huggingface''
          (Inr (CollectorResult_init 0 CollectorStatus.SUCCESS (Some []) None None None None
                  None)))"

definition arxiv_unit :: "(string, string list) BaseCollector" where
  "arxiv_unit =
     BaseCollector_init ''arxiv'' None (returns True)
       (fetch ''arxiv''
          (Inr (CollectorResult_init 0 CollectorStatus.SUCCESS (Some []) None None None None
                  None)))"

text \<open>
  An insight unit that succeeds at time 0 and raises later; a structural unit that notes
  the name of the model it is given and succeeds, except on the model \<open>hf2\<close>, where it
  raises; report delegates that return a report without a file.
\<close>

definition insight_unit :: "(string results, insight_payload, string list) BaseAnalyzer" where
  "insight_unit =
     BaseAnalyzer_init ''insight_analyzer'' None
       (\<lambda>d. Await (\<lambda>w. w)
               (\<lambda>w. Done (if clock w = 0
                           then Inr (AnalysisResult_init 0 AnalysisStatus.SUCCESS
                                       (Some \<lparr>insights = [''trend'']\<rparr>) None None None None None)
                           else Inl (Exception ''LLM timeout''))))"

definition name_in :: "model_data \<Rightarrow> string" where
  "name_in d = (case map_of d ''model_info'' of
                  None \<Rightarrow> []
                | Some info \<Rightarrow> (case map_of info ''name'' of None \<Rightarrow> [] | Some n \<Rightarrow> n))"

definition model_unit :: "(model_data, model_analysis, string list) BaseAnalyzer" where
  "model_unit =
     BaseAnalyzer_init ''model_analyzer'' None
       (\<lambda>d. Await (\<lambda>w. w\<lparr>env := env w @ [name_in d]\<rparr>)
               (\<lambda>w. Done (if name_in d = ''hf2'' then Inl (Exception ''unsupported architecture'')
                           else Inr (AnalysisResult_init 0 AnalysisStatus.SUCCESS
                                       (Some \<lparr>model_name = name_in d\<rparr>) None None None None
                                       None))))"

definition plain_generator :: "('p, string list) Generator" where
  "plain_generator =
     \<lparr>generate = (\<lambda>p f. returns \<lparr>file_path = None, title = ''Daily report'',
                                   status_value = ''completed''\<rparr>)\<rparr>"

definition scenario_manager ::
  "(string, unit, unit, string list) DailyJobManager" where
  "scenario_manager =
     DailyJobManager_init [] None ai_models_unit github_unit huggingface_unit arxiv_unit
       insight_unit model_unit plain_generator plain_generator"

text \<open>
  A world in which the event loop runs the four tasks in turn, each to its next
  suspension point, twice over.
\<close>

definition round_robin :: "string list world" where
  "round_robin = world0\<lparr>schedule := [0, 1, 2, 3, 0, 1, 2, 3]\<rparr>"

text \<open>A memory store whose \<open>store\<close> raises, and one whose \<open>store\<close> notes the key.\<close>

definition failing_store :: "string list MemoryStore" where
  "failing_store = \<lparr>store = (\<lambda>k v. raises (Exception ''database is locked''))\<rparr>"

definition noting_store :: "string list MemoryStore" where
  "noting_store =
     \<lparr>store = (\<lambda>k v. Await (\<lambda>w. w\<lparr>env := env w @ [k]\<rparr>) (\<lambda>w. Done (Inr ())))\<rparr>"

text \<open>
  A coordinator whose \<^verbatim>\<open>huggingface\<close> unit returns eight models, and whose configuration
  asks for three retries and for three structural analyses.
\<close>

definition eight_models :: "hf_model list" where
  "eight_models =
     map (\<lambda>n. \<lparr>model_id = n, author = ''org'', pipeline_tag = ''text-generation''\<rparr>)
       [''hf0'', ''hf1'', ''hf2'', ''hf3'', ''hf4'', ''hf5'', ''hf6'', ''hf7'']"

definition eight_models_unit :: "(hf_model, string list) BaseCollector" where
  "eight_models_unit =
     BaseCollector_init ''huggingface'' None (returns True)
       (returns (CollectorResult_init 0 CollectorStatus.SUCCESS (Some eight_models)
                   None None None None None))"

definition repos_unit :: "(string, string list) BaseCollector" where
  "repos_unit =
     BaseCollector_init ''github'' None (returns True)
       (returns (CollectorResult_init 0 CollectorStatus.SUCCESS (Some [''r1'']) None None None None
                   None))"

definition papers_unit :: "(string, string list) BaseCollector" where
  "papers_unit =
     BaseCollector_init ''arxiv'' None (returns True)
       (returns (CollectorResult_init 0 CollectorStatus.SUCCESS (Some []) None None None None
                   None))"

definition models_unit :: "(string, string list) BaseCollector" where
  "models_unit =
     BaseCollector_init ''ai_models'' None (returns True)
       (returns (CollectorResult_init 0 CollectorStatus.SUCCESS (Some ten_models) None None None
                   None None))"

definition capped_manager ::
  "(string, unit, unit, string list) DailyJobManager" where
  "capped_manager =
     DailyJobManager_init
       [(''scheduler'', [(''max_retries'', ''3''), (''retry_delay'', ''300'')]),
        (''analyzer'', [(''max_model_analyses'', ''3'')])]
       None models_unit repos_unit eight_models_unit papers_unit
       insight_unit model_unit plain_generator plain_generator"

text \<open>
  That coordinator after its collect stage, then after an analyze stage at time 0, in
  which the insight unit succeeds; \<open>next_day\<close> is a later world, in which it raises.
\<close>

definition collected_manager ::
  "(string, unit, unit, string list) DailyJobManager" where
  "collected_manager = fst (snd (run_collection_job capped_manager world0))"

definition collected_world :: "string list world" where
  "collected_world = snd (snd (run_collection_job capped_manager world0))"

definition analysed_manager ::
  "(string, unit, unit, string list) DailyJobManager" where
  "analysed_manager = fst (snd (run_analysis_job collected_manager collected_world))"

definition next_day :: "string list world" where
  "next_day = (snd (snd (run_analysis_job collected_manager collected_world)))\<lparr>clock := 1\<rparr>"


section \<open>Properties\<close>

subsection \<open>Collection envelope\<close>

text \<open>
  C9. After construction the \<open>items_count\<close> of a collection envelope equals the length of
  its payload unless the unit passed \<open>items_count\<close> itself. Without the argument the count
  is the length of the payload; a count that is passed is kept, except that a passed \<open>0\<close>
  is taken for "not given" and replaced by the length as well.
\<close>

theorem items_count_is_length_unless_overridden:
  "items_count (CollectorResult_init now st d e m t None s
                  :: 'a CollectorResult)
     = int (length (data (CollectorResult_init now st d e m t None s :: 'a CollectorResult)))
   \<and> items_count (CollectorResult_init now st d e m t (Some n) s :: 'a CollectorResult)
     = (if n = 0
        then int (length (data (CollectorResult_init now st d e m t (Some n) s
                                  :: 'a CollectorResult)))
        else n)"
  by (simp add: CollectorResult_init_def CollectorResult_post_init_def)

subsection \<open>Coroutines\<close>

lemma exec_resume: "exec (fst (resume c w)) (snd (resume c w)) = exec c w"
  by (cases c) (simp_all add: resume_def)

text \<open>Awaited on its own, \<open>bindw c g\<close> is \<open>c\<close> run to its end followed by the rest.\<close>

lemma exec_bindw:
  "exec (bindw c g w) w = (case exec c w of (r, w1) \<Rightarrow> exec (g r w1) w1)"
proof (induction c arbitrary: w)
  case (Done r)
  then show ?case by simp
next
  case (Await f k)
  have ih: "exec (bindw (k w) g (f w)) (f w)
              = (case exec (k w) (f w) of (r, w1) \<Rightarrow> exec (g r w1) w1)"
    by (rule Await.IH) simp
  show ?case
  proof (cases "k w")
    case (Done r)
    then show ?thesis by (simp add: exec_resume)
  next
    case (Await f2 k2)
    with ih show ?thesis by simp
  qed
qed

lemma exec_create_task: "exec (create_task start) w = exec (start w) w"
  by (simp add: create_task_def exec_resume)

lemma exec_protect_calls: "calls (snd (exec (protect b) w)) = calls w"
proof (induction b arbitrary: w)
  case (Done r)
  then show ?case by simp
next
  case (Await f k)
  have "calls (snd (exec (protect (k w)) ((f w)\<lparr>calls := calls w\<rparr>)))
          = calls ((f w)\<lparr>calls := calls w\<rparr>)"
    by (rule Await.IH) simp
  then show ?case by simp
qed

text \<open>A call adds its entry to the trace, and nothing else.\<close>

lemma invoke_calls:
  "invoke c b w = (r, w') \<Longrightarrow> calls w' = calls w @ [c]"
proof (cases b)
  case (Done x)
  assume "invoke c b w = (r, w')"
  with Done show ?thesis by (auto simp: invoke_def traced_def)
next
  case (Await f k)
  assume "invoke c b w = (r, w')"
  with Await have "w' = snd (exec (protect (k w)) ((f w)\<lparr>calls := calls w @ [c]\<rparr>))"
    by (simp add: invoke_def traced_def)
  then show ?thesis by (simp add: exec_protect_calls)
qed

subsection \<open>The unit contract\<close>

lemmas unit_defs =
  BaseCollector_run_def BaseCollector_run_coro_def BaseCollector_run_try_def
  BaseCollector_run_except_def CollectorResult_init_def CollectorResult_post_init_def
  BaseAnalyzer_run_def BaseAnalyzer_run_try_def AnalysisResult_init_def invoke_def traced_def
  resume_def Let_def

lemmas concrete_defs =
  BaseCollector_init_def BaseAnalyzer_init_def world0_def returns_def raises_def fetch_def

text \<open>
  \<^verbatim>\<open>run\<close> of a collection unit awaited on its own, in terms of the two calls it makes.
\<close>

lemma BaseCollector_run_seq:
  "BaseCollector_run self w =
     (let self1 = self\<lparr>BaseCollector.u_status := CollectorStatus.RUNNING\<rparr> in
      case invoke (Call (BaseCollector.name self) ''validate_config'') (validate_config self) w of
        (Inl e, w1) \<Rightarrow>
          (case exec (BaseCollector_run_except self1 e w1) w1 of ((r, s'), w') \<Rightarrow> (r, s', w'))
      | (Inr ok, w1) \<Rightarrow>
          if \<not> ok
          then (case exec (BaseCollector_run_except self1
                             (Exception (''Invalid configuration for '' @ BaseCollector.name self)) w1) w1
                of ((r, s'), w') \<Rightarrow> (r, s', w'))
          else
            (case invoke (Call (BaseCollector.name self) ''collect'') (collect self) w1 of
               (Inl e, w2) \<Rightarrow>
                 (case exec (BaseCollector_run_except self1 e w2) w2 of ((r, s'), w') \<Rightarrow> (r, s', w'))
             | (Inr cr, w2) \<Rightarrow>
                 (Inr (cr\<lparr>CollectorResult.source := BaseCollector.name self\<rparr>),
                  self\<lparr>BaseCollector.u_status := (if CollectorResult.errors cr \<noteq> []
                                                  then CollectorStatus.PARTIAL
                                                  else CollectorStatus.SUCCESS)\<rparr>,
                  w2)))"
  by (simp add: BaseCollector_run_def BaseCollector_run_coro_def BaseCollector_run_try_def
        exec_bindw invoke_def Let_def split: prod.splits sum.splits)

text \<open>
  \<^verbatim>\<open>run\<close> returns an envelope or raises what is no \<^verbatim>\<open>Exception\<close>: it never raises an
  \<^verbatim>\<open>Exception\<close>.
\<close>

lemma BaseCollector_run_never_Exception:
  "fst (BaseCollector_run self w) \<noteq> Inl (Exception s)"
  by (simp add: BaseCollector_run_seq BaseCollector_run_except_def Let_def
           split: prod.splits sum.splits exn.splits)

lemma BaseAnalyzer_run_never_Exception:
  "fst (BaseAnalyzer_run self d w) \<noteq> Inl (Exception s)"
  by (simp add: BaseAnalyzer_run_def split: prod.splits sum.splits exn.splits)

text \<open>
  C4. If \<open>validate_config\<close> returns false, \<open>run\<close> returns an envelope with status
  \<open>FAILED\<close>, the single error "Invalid configuration for <unit name>" and an empty
  payload. The body \<open>collect\<close> is not invoked: the world \<open>run\<close> leaves is the one
  \<open>validate_config\<close> left, and the only call \<open>run\<close> has added to the trace is the one to
  \<open>validate_config\<close>.
\<close>

theorem invalid_config_fails_without_collecting:
  assumes "invoke (Call (BaseCollector.name self) ''validate_config'') (validate_config self) w
             = (Inr False, w1)"
  shows "BaseCollector_run self w =
           (Inr \<lparr>CollectorResult.status = CollectorStatus.FAILED, data = [],
                 errors = [''Invalid configuration for '' @ BaseCollector.name self],
                 metadata = [], collected_at = clock w1, items_count = 0,
                 source = BaseCollector.name self\<rparr>,
            self\<lparr>BaseCollector.u_status := CollectorStatus.FAILED\<rparr>,
            w1)
         \<and> calls w1 = calls w @ [Call (BaseCollector.name self) ''validate_config'']"
  using assms invoke_calls [OF assms]
  by (simp add: BaseCollector_run_seq BaseCollector_run_except_def CollectorResult_init_def
        CollectorResult_post_init_def)

theorem invalid_config_fails_without_collecting_witness:
  "BaseCollector_run unconfigured_collector world0 =
     (Inr \<lparr>CollectorResult.status = CollectorStatus.FAILED, data = [],
           errors = [''Invalid configuration for github''],
           metadata = [], collected_at = 0, items_count = 0, source = ''github''\<rparr>,
      unconfigured_collector\<lparr>BaseCollector.u_status := CollectorStatus.FAILED\<rparr>,
      world0\<lparr>calls := [Call ''github'' ''validate_config'']\<rparr>)"
  using invalid_config_fails_without_collecting
          [of unconfigured_collector world0 "world0\<lparr>calls := [Call ''github'' ''validate_config'']\<rparr>"]
  by (simp add: unconfigured_collector_def BaseCollector_init_def world0_def invoke_def
        traced_def returns_def)

text \<open>
  C5 as stated fails for an exception that is no instance of \<^verbatim>\<open>Exception\<close>: the
  handlers are \<^verbatim>\<open>except Exception\<close>. A body that is cancelled raises
  \<^verbatim>\<open>asyncio.CancelledError\<close>, and \<open>run\<close> raises it again, with the status of the unit
  left at \<open>RUNNING\<close>.
\<close>

theorem cancelled_body_leaves_run_counterexample:
  "BaseCollector_run cancelled_collector world0 =
     (Inl (BaseException ''CancelledError'' ''''),
      cancelled_collector\<lparr>BaseCollector.u_status := CollectorStatus.RUNNING\<rparr>,
      world0\<lparr>calls := [Call ''github'' ''validate_config'', Call ''github'' ''collect'']\<rparr>)
   \<and> fst (BaseAnalyzer_run cancelled_analyzer ''input'' world0)
     = Inl (BaseException ''CancelledError'' '''')
   \<and> BaseAnalyzer.u_status (fst (snd (BaseAnalyzer_run cancelled_analyzer ''input'' world0)))
     = AnalysisStatus.RUNNING"
  by (simp add: cancelled_collector_def cancelled_analyzer_def concrete_defs unit_defs
        BaseCollector_run_seq)

text \<open>
  C5 as amended. If the body of a unit raises an instance of \<^verbatim>\<open>Exception\<close>, \<open>run\<close> does
  not raise: it returns an envelope with status \<open>FAILED\<close>, the exception's string as its
  only error, an empty payload (no payload for an analysis unit) and the unit's name as
  source. If the body raises what is no instance of \<^verbatim>\<open>Exception\<close>, \<open>run\<close> raises it
  again and leaves the status of the unit at \<open>RUNNING\<close>. First conjunct: collection
  units (whose configuration check has passed); second conjunct: analysis units.
\<close>

theorem body_exception_becomes_failed_envelope:
  "(invoke (Call (BaseCollector.name c) ''validate_config'') (validate_config c) w = (Inr True, w1)
      \<and> invoke (Call (BaseCollector.name c) ''collect'') (collect c) w1 = (Inl e, w2)
    \<longrightarrow> BaseCollector_run c w =
          (case e of
             Exception s \<Rightarrow>
               (Inr \<lparr>CollectorResult.status = CollectorStatus.FAILED, data = [], errors = [s],
                     metadata = [], collected_at = clock w2, items_count = 0,
                     source = BaseCollector.name c\<rparr>,
                c\<lparr>BaseCollector.u_status := CollectorStatus.FAILED\<rparr>,
                w2)
           | BaseException cls s \<Rightarrow>
               (Inl (BaseException cls s),
                c\<lparr>BaseCollector.u_status := CollectorStatus.RUNNING\<rparr>,
                w2)))
   \<and> (invoke (Call (BaseAnalyzer.name a) ''analyze'') (analyze a d) v = (Inl e', v1)
    \<longrightarrow> BaseAnalyzer_run a d v =
          (case e' of
             Exception s \<Rightarrow>
               (Inr \<lparr>AnalysisResult.status = AnalysisStatus.FAILED, result = None, insights = [],
                     metadata = [], analyzed_at = clock v1, source = BaseAnalyzer.name a,
                     errors = [s]\<rparr>,
                a\<lparr>BaseAnalyzer.u_status := AnalysisStatus.FAILED,
                   analyzed := analyzed a @ [d]\<rparr>,
                v1)
           | BaseException cls s \<Rightarrow>
               (Inl (BaseException cls s),
                a\<lparr>BaseAnalyzer.u_status := AnalysisStatus.RUNNING,
                   analyzed := analyzed a @ [d]\<rparr>,
                v1)))"
  by (simp add: BaseCollector_run_seq BaseCollector_run_except_def CollectorResult_init_def
        CollectorResult_post_init_def BaseAnalyzer_run_def BaseAnalyzer_run_try_def
        AnalysisResult_init_def Let_def split: exn.splits)

theorem body_exception_becomes_failed_envelope_witness:
  "BaseCollector_run crashing_collector world0 =
     (Inr \<lparr>CollectorResult.status = CollectorStatus.FAILED, data = [],
           errors = [''Connection refused''], metadata = [], collected_at = 0, items_count = 0,
           source = ''arxiv''\<rparr>,
      crashing_collector\<lparr>BaseCollector.u_status := CollectorStatus.FAILED\<rparr>,
      world0\<lparr>calls := [Call ''arxiv'' ''validate_config'', Call ''arxiv'' ''collect'']\<rparr>)
   \<and> BaseAnalyzer_run crashing_analyzer ''input'' world0 =
     (Inr \<lparr>AnalysisResult.status = AnalysisStatus.FAILED, result = None, insights = [],
           metadata = [], analyzed_at = 0, source = ''insight_analyzer'',
           errors = [''LLM timeout'']\<rparr>,
      crashing_analyzer\<lparr>BaseAnalyzer.u_status := AnalysisStatus.FAILED,
                         analyzed := [''input'']\<rparr>,
      world0\<lparr>calls := [Call ''insight_analyzer'' ''analyze'']\<rparr>)"
  using body_exception_becomes_failed_envelope
          [of crashing_collector world0 "world0\<lparr>calls := [Call ''arxiv'' ''validate_config'']\<rparr>"
              "Exception ''Connection refused''"
              "world0\<lparr>calls := [Call ''arxiv'' ''validate_config'', Call ''arxiv'' ''collect'']\<rparr>"
              crashing_analyzer "''input''" world0 "Exception ''LLM timeout''"
              "world0\<lparr>calls := [Call ''insight_analyzer'' ''analyze'']\<rparr>"]
  by (simp add: crashing_collector_def crashing_analyzer_def BaseCollector_init_def
        BaseAnalyzer_init_def world0_def invoke_def traced_def returns_def raises_def)

text \<open>
  C2 as stated fails: \<open>run\<close> leaves the status field of the returned envelope as the body
  set it. A body that reports \<open>SUCCESS\<close> together with an error string gets its envelope
  back with status \<open>SUCCESS\<close>, and a body that reports \<open>FAILED\<close> without any error string
  gets it back with status \<open>FAILED\<close>.
\<close>

theorem envelope_status_not_downgraded_counterexample:
  "map_sum id (\<lambda>r. (CollectorResult.status r, CollectorResult.errors r))
       (fst (BaseCollector_run degraded_collector world0))
     = Inr (CollectorStatus.SUCCESS, [''rate limited''])
   \<and> map_sum id (\<lambda>r. (AnalysisResult.status r, AnalysisResult.errors r))
       (fst (BaseAnalyzer_run mislabelled_analyzer ''input'' world0))
     = Inr (AnalysisStatus.FAILED, [])"
  by (simp add: degraded_collector_def mislabelled_analyzer_def concrete_defs unit_defs
        BaseCollector_run_seq)

text \<open>
  C2 as amended. If the body of a unit returns normally, \<open>run\<close> returns the body's
  envelope with only \<open>source\<close> stamped, its status field as the body set it; what depends
  on the error strings is the status recorded on the unit (\<^verbatim>\<open>_status\<close>): \<open>PARTIAL\<close> if
  the envelope carries at least one error string, \<open>SUCCESS\<close> if it carries none. First
  conjunct: collection units; second conjunct: analysis units, which also retain the
  envelope.
\<close>

theorem unit_status_follows_envelope_errors:
  "(invoke (Call (BaseCollector.name c) ''validate_config'') (validate_config c) w = (Inr True, w1)
      \<and> invoke (Call (BaseCollector.name c) ''collect'') (collect c) w1 = (Inr r, w2)
    \<longrightarrow> BaseCollector_run c w =
          (Inr (r\<lparr>CollectorResult.source := BaseCollector.name c\<rparr>),
           c\<lparr>BaseCollector.u_status := (if CollectorResult.errors r = []
                                          then CollectorStatus.SUCCESS
                                          else CollectorStatus.PARTIAL)\<rparr>,
           w2))
   \<and> (invoke (Call (BaseAnalyzer.name a) ''analyze'') (analyze a d) v = (Inr ar, v1)
    \<longrightarrow> BaseAnalyzer_run a d v =
          (Inr (ar\<lparr>AnalysisResult.source := BaseAnalyzer.name a\<rparr>),
           a\<lparr>BaseAnalyzer.u_status := (if AnalysisResult.errors ar = []
                                         then AnalysisStatus.SUCCESS
                                         else AnalysisStatus.PARTIAL),
              last_result := Some (ar\<lparr>AnalysisResult.source := BaseAnalyzer.name a\<rparr>),
              analyzed := analyzed a @ [d]\<rparr>,
           v1))"
  by (simp add: BaseCollector_run_seq BaseAnalyzer_run_def BaseAnalyzer_run_try_def Let_def)

theorem unit_status_follows_envelope_errors_witness:
  "BaseCollector_run degraded_collector world0 =
     (Inr \<lparr>CollectorResult.status = CollectorStatus.SUCCESS, data = [''m1''],
           errors = [''rate limited''], metadata = [], collected_at = 0, items_count = 1,
           source = ''huggingface''\<rparr>,
      degraded_collector\<lparr>BaseCollector.u_status := CollectorStatus.PARTIAL\<rparr>,
      world0\<lparr>calls := [Call ''huggingface'' ''validate_config'', Call ''huggingface'' ''collect'']\<rparr>)
   \<and> BaseAnalyzer_run mislabelled_analyzer ''input'' world0 =
     (Inr \<lparr>AnalysisResult.status = AnalysisStatus.FAILED, result = Some ''input'', insights = [],
           metadata = [], analyzed_at = 0, source = ''model_analyzer'', errors = []\<rparr>,
      mislabelled_analyzer
        \<lparr>BaseAnalyzer.u_status := AnalysisStatus.SUCCESS,
         last_result := Some \<lparr>AnalysisResult.status = AnalysisStatus.FAILED,
                              result = Some ''input'', insights = [], metadata = [],
                              analyzed_at = 0, source = ''model_analyzer'', errors = []\<rparr>,
         analyzed := [''input'']\<rparr>,
      world0\<lparr>calls := [Call ''model_analyzer'' ''analyze'']\<rparr>)"
  using unit_status_follows_envelope_errors
          [of degraded_collector world0
              "world0\<lparr>calls := [Call ''huggingface'' ''validate_config'']\<rparr>"
              "CollectorResult_init 0 CollectorStatus.SUCCESS (Some [''m1''])
                 (Some [''rate limited'']) None None None None"
              "world0\<lparr>calls := [Call ''huggingface'' ''validate_config'',
                                  Call ''huggingface'' ''collect'']\<rparr>"
              mislabelled_analyzer "''input''" world0
              "AnalysisResult_init 0 AnalysisStatus.FAILED (Some ''input'') None None None None None"
              "world0\<lparr>calls := [Call ''model_analyzer'' ''analyze'']\<rparr>"]
  by (simp add: degraded_collector_def mislabelled_analyzer_def BaseCollector_init_def
        BaseAnalyzer_init_def world0_def invoke_def traced_def returns_def CollectorResult_init_def
        CollectorResult_post_init_def AnalysisResult_init_def)

subsection \<open>Collect stage\<close>

lemmas stage_defs =
  run_collection_job_def collect_tasks_def safe_collect_def create_task_def gather_def
  aggregate_def append_error_def count_of_def
  run_analysis_job_def get_hf_models_def model_data_of_def run_report_job_def

lemmas scenario_defs =
  scenario_manager_def capped_manager_def DailyJobManager_init_def ai_models_unit_def
  github_unit_def huggingface_unit_def arxiv_unit_def eight_models_unit_def insight_unit_def
  repos_unit_def papers_unit_def models_unit_def round_robin_def
  model_unit_def plain_generator_def failing_store_def noting_store_def ten_models_def
  eight_models_def name_in_def

lemma aggregate_four:
  "aggregate_loop
     [(''ai_models'', Inr d1), (''github'', Inr d2), (''huggingface'', Inr d3), (''arxiv'', Inr d4)]
     [(''models'', Items []), (''papers'', Items []), (''repos'', Items []),
      (''hf_models'', HfModels []), (''errors'', Strs [])]
   = Inr [(''models'', d1), (''papers'', d4), (''repos'', d2), (''hf_models'', d3),
          (''errors'', Strs [])]"
  by (simp add: aggregate_def)

lemma collect_tasks_memory_store [simp]:
  "collect_tasks (self\<lparr>memory_store := x\<rparr>) = collect_tasks self"
  by (simp add: collect_tasks_def)

lemma collect_stage_without_store:
  assumes "gather (collect_tasks self) w
             = (((Inr r1, c1), (Inr r2, c2), (Inr r3, c3), (Inr r4, c4)), w4)"
    and "memory_store self = None"
  shows "run_collection_job self w =
     (Inr [(''models'', Items (data r1)), (''papers'', Items (data r4)),
           (''repos'', Items (data r2)), (''hf_models'', HfModels (data r3)),
           (''errors'', Strs [])],
      self\<lparr>ai_model_collector := c1, github_collector := c2, hf_collector := c3,
             arxiv_collector := c4,
             collected_data := [(''models'', Items (data r1)), (''papers'', Items (data r4)),
                                (''repos'', Items (data r2)), (''hf_models'', HfModels (data r3)),
                                (''errors'', Strs [])],
             last_collection := AList.update ''all'' (clock w) (last_collection self)\<rparr>,
      w4)"
  using assms
  by (simp add: run_collection_job_def aggregate_four Let_def del: aggregate_loop.simps)

lemma collect_stage_with_store:
  assumes "gather (collect_tasks self) w
             = (((Inr r1, c1), (Inr r2, c2), (Inr r3, c3), (Inr r4, c4)), w4)"
    and "memory_store self = Some ms"
    and "invoke (Call ''memory_store'' ''store'')
           (store ms ''last_collection''
              (CollectionSummary (clock w)
                 [(''models'', length (data r1)), (''papers'', length (data r4)),
                  (''repos'', length (data r2)), (''hf_models'', length (data r3))])) w4
         = (r, w5)"
  shows "run_collection_job self w =
     (case r of
        Inl e \<Rightarrow> Inl e
      | Inr u \<Rightarrow> Inr [(''models'', Items (data r1)), (''papers'', Items (data r4)),
                      (''repos'', Items (data r2)), (''hf_models'', HfModels (data r3)),
                      (''errors'', Strs [])],
      self\<lparr>ai_model_collector := c1, github_collector := c2, hf_collector := c3,
             arxiv_collector := c4,
             collected_data := [(''models'', Items (data r1)), (''papers'', Items (data r4)),
                                (''repos'', Items (data r2)), (''hf_models'', HfModels (data r3)),
                                (''errors'', Strs [])],
             last_collection := AList.update ''all'' (clock w) (last_collection self)\<rparr>,
      w5)"
  using assms
  by (cases r)
     (simp_all add: run_collection_job_def aggregate_four count_of_def Let_def
           del: aggregate_loop.simps)

text \<open>
  C1, evaluated on the end-to-end scenario: four units, the first returns ten items, the
  body of the second (\<open>github\<close>) raises \<open>Connection reset by peer\<close>, the other two
  return no item. \<open>run\<close> of the second unit turns the exception into a \<open>FAILED\<close>
  envelope, the stage reads only the \<open>data\<close> of an envelope, and the \<open>errors\<close> slot of
  its output is empty, where the claim has \<open>github: Connection reset by peer\<close>. This is
  so when the event loop runs the four tasks one after the other (\<open>world0\<close>) and when it
  interleaves them (\<open>round_robin\<close>).
\<close>

theorem failed_unit_missing_from_errors:
  "fst (run_collection_job scenario_manager world0) =
     Inr [(''models'', Items ten_models), (''papers'', Items []), (''repos'', Items []),
          (''hf_models'', HfModels []), (''errors'', Strs [])]
   \<and> fst (run_collection_job scenario_manager round_robin) =
     Inr [(''models'', Items ten_models), (''papers'', Items []), (''repos'', Items []),
          (''hf_models'', HfModels []), (''errors'', Strs [])]"
  by (simp add: stage_defs scenario_defs concrete_defs unit_defs)

text \<open>
  C6 as stated fails in its last part, in two ways. With a memory store whose \<open>store\<close>
  raises, the stage raises. And a unit whose body is cancelled makes \<open>run\<close> raise
  \<^verbatim>\<open>CancelledError\<close>, which \<^verbatim>\<open>gather\<close> returns in the place of an envelope; it is no
  instance of \<^verbatim>\<open>Exception\<close> and it is truthy, so the stage reads its \<^verbatim>\<open>data\<close> and raises
  \<^verbatim>\<open>AttributeError\<close>, before anything is committed.
\<close>

theorem collect_stage_raises_counterexample:
  "fst (run_collection_job (scenario_manager\<lparr>memory_store := Some failing_store\<rparr>) world0)
     = Inl (Exception ''database is locked'')
   \<and> fst (run_collection_job (scenario_manager\<lparr>github_collector := cancelled_collector\<rparr>) world0)
     = Inl (attribute_error ''CancelledError'' ''data'')
   \<and> collected_data (fst (snd (run_collection_job
                                  (scenario_manager\<lparr>github_collector := cancelled_collector\<rparr>)
                                  world0)))
     = []"
  by (simp add: stage_defs scenario_defs concrete_defs unit_defs cancelled_collector_def)

text \<open>
  C6 as amended. Take a run of the collect stage, under any schedule of the event loop,
  in which \<open>run\<close> of each of the four units returns an envelope (\<^verbatim>\<open>gather\<close> yields
  \<open>r1\<close>, ..., \<open>r4\<close>), and in which no memory store is configured or the call of its
  \<open>store\<close> made by the stage returns. Then, whatever the status of the four envelopes,
  the stage returns a mapping with exactly the slots \<open>models\<close>, \<open>papers\<close>, \<open>repos\<close>,
  \<open>hf_models\<close> and \<open>errors\<close>, the slot of each source holds the data of the envelope of
  its own unit (empty for a unit whose \<open>run\<close> has built the \<open>FAILED\<close> envelope), and
  that mapping is the one committed to the coordinator.
\<close>

theorem collect_stage_fills_every_slot:
  assumes "gather (collect_tasks self) w
             = (((Inr r1, c1), (Inr r2, c2), (Inr r3, c3), (Inr r4, c4)), w4)"
    and "memory_store self = None
           \<or> (\<exists>ms u w5. memory_store self = Some ms
                 \<and> invoke (Call ''memory_store'' ''store'')
                      (store ms ''last_collection''
                         (CollectionSummary (clock w)
                            [(''models'', length (data r1)), (''papers'', length (data r4)),
                             (''repos'', length (data r2)), (''hf_models'', length (data r3))])) w4
                    = (Inr u, w5))"
  shows "\<exists>es w'.
           run_collection_job self w =
             (Inr [(''models'', Items (data r1)), (''papers'', Items (data r4)),
                   (''repos'', Items (data r2)), (''hf_models'', HfModels (data r3)),
                   (''errors'', Strs es)],
              self\<lparr>ai_model_collector := c1, github_collector := c2, hf_collector := c3,
                     arxiv_collector := c4,
                     collected_data :=
                       [(''models'', Items (data r1)), (''papers'', Items (data r4)),
                        (''repos'', Items (data r2)), (''hf_models'', HfModels (data r3)),
                        (''errors'', Strs es)],
                     last_collection := AList.update ''all'' (clock w) (last_collection self)\<rparr>,
              w')"
  using assms(2)
proof
  assume "memory_store self = None"
  from collect_stage_without_store [OF assms(1) this] show ?thesis by blast
next
  assume "\<exists>ms u w5. memory_store self = Some ms
                 \<and> invoke (Call ''memory_store'' ''store'')
                      (store ms ''last_collection''
                         (CollectionSummary (clock w)
                            [(''models'', length (data r1)), (''papers'', length (data r4)),
                             (''repos'', length (data r2)), (''hf_models'', length (data r3))])) w4
                    = (Inr u, w5)"
  then obtain ms u w5 where ms: "memory_store self = Some ms"
    and st: "invoke (Call ''memory_store'' ''store'')
                      (store ms ''last_collection''
                         (CollectionSummary (clock w)
                            [(''models'', length (data r1)), (''papers'', length (data r4)),
                             (''repos'', length (data r2)), (''hf_models'', length (data r3))])) w4
                    = (Inr u, w5)" by blast
  from collect_stage_with_store [OF assms(1) ms st] show ?thesis by simp
qed

text \<open>
  The scenario under the round-robin schedule: the requests of the four units are made
  before any response is read, and each unit still gets its own outcome.
\<close>

lemma scenario_gather:
  "gather (collect_tasks scenario_manager) round_robin =
     (((Inr (CollectorResult_init 0 CollectorStatus.SUCCESS (Some ten_models) None None None None
               (Some ''ai_models'')),
        ai_models_unit\<lparr>BaseCollector.u_status := CollectorStatus.SUCCESS\<rparr>),
       (Inr (CollectorResult_init 0 CollectorStatus.FAILED None
               (Some [''Connection reset by peer'']) None None None (Some ''github'')),
        github_unit\<lparr>BaseCollector.u_status := CollectorStatus.FAILED\<rparr>),
       (Inr (CollectorResult_init 0 CollectorStatus.SUCCESS (Some []) None None None None
               (Some ''huggingface'')),
        huggingface_unit\<lparr>BaseCollector.u_status := CollectorStatus.SUCCESS\<rparr>),
       (Inr (CollectorResult_init 0 CollectorStatus.SUCCESS (Some []) None None None None
               (Some ''arxiv'')),
        arxiv_unit\<lparr>BaseCollector.u_status := CollectorStatus.SUCCESS\<rparr>)),
      round_robin
        \<lparr>env := [''ai_models request'', ''github request'', ''huggingface request'',
                 ''arxiv request'', ''ai_models response'', ''github response'',
                 ''huggingface response'', ''arxiv response''],
         calls := [Call ''ai_models'' ''validate_config'', Call ''ai_models'' ''collect'',
                   Call ''github'' ''validate_config'', Call ''github'' ''collect'',
                   Call ''huggingface'' ''validate_config'', Call ''huggingface'' ''collect'',
                   Call ''arxiv'' ''validate_config'', Call ''arxiv'' ''collect'']\<rparr>)"
  by (simp add: stage_defs scenario_defs concrete_defs unit_defs)

theorem collect_stage_fills_every_slot_witness:
  "\<exists>es w'.
     run_collection_job scenario_manager round_robin =
       (Inr [(''models'', Items ten_models), (''papers'', Items []), (''repos'', Items []),
             (''hf_models'', HfModels []), (''errors'', Strs es)],
        scenario_manager
          \<lparr>ai_model_collector := ai_models_unit\<lparr>BaseCollector.u_status := CollectorStatus.SUCCESS\<rparr>,
           github_collector := github_unit\<lparr>BaseCollector.u_status := CollectorStatus.FAILED\<rparr>,
           hf_collector := huggingface_unit\<lparr>BaseCollector.u_status := CollectorStatus.SUCCESS\<rparr>,
           arxiv_collector := arxiv_unit\<lparr>BaseCollector.u_status := CollectorStatus.SUCCESS\<rparr>,
           collected_data :=
             [(''models'', Items ten_models), (''papers'', Items []), (''repos'', Items []),
              (''hf_models'', HfModels []), (''errors'', Strs es)],
           last_collection := [(''all'', 0)]\<rparr>,
        w')"
proof -
  have none: "memory_store scenario_manager = None"
    "last_collection scenario_manager = []" "clock round_robin = 0"
    by (simp_all add: scenario_manager_def DailyJobManager_init_def round_robin_def world0_def)
  from collect_stage_fills_every_slot [OF scenario_gather] none
  show ?thesis
    by (simp add: CollectorResult_init_def CollectorResult_post_init_def)
qed

subsection \<open>The memory store\<close>

text \<open>The coordinator with eight models after its collect stage.\<close>

lemma collected_manager_eq:
  "collected_manager =
     capped_manager
       \<lparr>ai_model_collector := models_unit\<lparr>BaseCollector.u_status := CollectorStatus.SUCCESS\<rparr>,
        github_collector := repos_unit\<lparr>BaseCollector.u_status := CollectorStatus.SUCCESS\<rparr>,
        hf_collector := eight_models_unit\<lparr>BaseCollector.u_status := CollectorStatus.SUCCESS\<rparr>,
        arxiv_collector := papers_unit\<lparr>BaseCollector.u_status := CollectorStatus.SUCCESS\<rparr>,
        collected_data :=
          [(''models'', Items ten_models), (''papers'', Items []), (''repos'', Items [''r1'']),
           (''hf_models'', HfModels eight_models), (''errors'', Strs [])],
        last_collection := [(''all'', 0)]\<rparr>"
  by (simp add: collected_manager_def stage_defs scenario_defs concrete_defs unit_defs)

lemma collected_world_eq:
  "collected_world =
     world0\<lparr>calls := [Call ''ai_models'' ''validate_config'', Call ''ai_models'' ''collect'',
                       Call ''github'' ''validate_config'', Call ''github'' ''collect'',
                       Call ''huggingface'' ''validate_config'', Call ''huggingface'' ''collect'',
                       Call ''arxiv'' ''validate_config'', Call ''arxiv'' ''collect'']\<rparr>"
  by (simp add: collected_world_def stage_defs scenario_defs concrete_defs unit_defs)






subsection \<open>Analyze stage\<close>



text \<open>
  C7. When no output of the collect stage has been committed (\<^verbatim>\<open>_collected_data\<close> is
  still the empty dict), the analyze stage returns the single error
  \<open>No data available\<close>, and leaves the coordinator with its units and the world as
  they were: no body of an analysis unit is invoked, nothing is retained, no call is made.
\<close>

theorem no_data_no_analysis:
  assumes "collected_data self = []"
  shows "run_analysis_job self w = (Inr (ErrorOnly ''No data available''), self, w)"
  using assms by (simp add: run_analysis_job_def)

theorem no_data_no_analysis_witness:
  "run_analysis_job scenario_manager world0 =
     (Inr (ErrorOnly ''No data available''), scenario_manager, world0)"
proof -
  have "collected_data scenario_manager = []"
    by (simp add: scenario_manager_def DailyJobManager_init_def)
  then show ?thesis by (rule no_data_no_analysis)
qed




subsection \<open>Retained analysis results and the report stage\<close>

lemma BaseAnalyzer_run_raising:
  assumes "invoke (Call (BaseAnalyzer.name a) ''analyze'') (analyze a d) v = (Inl e, v1)"
  shows "last_result (fst (snd (BaseAnalyzer_run a d v))) = last_result a"
  using assms by (cases e) (simp_all add: BaseAnalyzer_run_def BaseAnalyzer_run_try_def)

text \<open>The analyze stage leaves the insight unit as the run of that unit has left it.\<close>

lemma run_analysis_job_insight_unit:
  assumes "collected_data self \<noteq> []"
  shows "insight_analyzer (fst (snd (run_analysis_job self w)))
           = fst (snd (BaseAnalyzer_run (insight_analyzer self) (collected_data self) w))
         \<and> insight_generator (fst (snd (run_analysis_job self w))) = insight_generator self"
proof -
  obtain ir ia w1 where
    i: "BaseAnalyzer_run (insight_analyzer self) (collected_data self) w = (ir, ia, w1)"
    by (metis prod_cases3)
  obtain out ma w2 where
    m: "analyze_models (model_analyzer self) (take 5 (get_hf_models (collected_data self))) [] w1
          = (out, ma, w2)"
    by (metis prod_cases3)
  from assms i m show ?thesis
    by (cases ir; cases out; cases "memory_store self")
       (auto simp: run_analysis_job_def Let_def split: exn.splits prod.splits sum.splits)
qed

lemma report_models_returns:
  "\<exists>reports w'. report_models g xs acc w = (reports, w')"
  by (cases "report_models g xs acc w") simp

text \<open>
  C10. If the body of an analysis unit raises, \<open>run\<close> leaves the retained
  \<^verbatim>\<open>_last_result\<close> as it was (first conjunct). So, when the insight unit holds the
  envelope \<open>old\<close> of an earlier run with payload \<open>p\<close> and its body raises in the analyze
  stage, a report stage run afterwards hands \<open>p\<close> to the insight report delegate and
  returns the descriptor of the report generated from it, with no error (second
  conjunct).
\<close>

theorem failed_analysis_keeps_stale_result:
  "(invoke (Call (BaseAnalyzer.name a) ''analyze'') (analyze a d) v = (Inl e, v1)
      \<longrightarrow> last_result (fst (snd (BaseAnalyzer_run a d v))) = last_result a)
   \<and> (collected_data self \<noteq> []
      \<and> invoke (Call (BaseAnalyzer.name (insight_analyzer self)) ''analyze'')
            (analyze (insight_analyzer self) (collected_data self)) w = (Inl e', w1)
      \<and> last_result (insight_analyzer self) = Some old
      \<and> result old = Some p
      \<and> invoke (Call ''insight_generator'' ''generate'')
            (generate (insight_generator self) p PPT) w2 = (Inr rep, w3)
      \<longrightarrow> (\<exists>reports w4.
             run_report_job (fst (snd (run_analysis_job self w))) w2 =
               (Inr \<lparr>insight_report =
                       Some [(''path'', file_path rep), (''title'', Some (title rep)),
                             (''status'', Some (status_value rep))],
                     model_reports = reports, errors = []\<rparr>, w4)))"
proof (intro conjI impI)
  assume "invoke (Call (BaseAnalyzer.name a) ''analyze'') (analyze a d) v = (Inl e, v1)"
  then show "last_result (fst (snd (BaseAnalyzer_run a d v))) = last_result a"
    by (rule BaseAnalyzer_run_raising)
next
  assume h: "collected_data self \<noteq> []
      \<and> invoke (Call (BaseAnalyzer.name (insight_analyzer self)) ''analyze'')
            (analyze (insight_analyzer self) (collected_data self)) w = (Inl e', w1)
      \<and> last_result (insight_analyzer self) = Some old
      \<and> result old = Some p
      \<and> invoke (Call ''insight_generator'' ''generate'')
            (generate (insight_generator self) p PPT) w2 = (Inr rep, w3)"
  let ?self' = "fst (snd (run_analysis_job self w))"
  from h have inv: "invoke (Call (BaseAnalyzer.name (insight_analyzer self)) ''analyze'')
            (analyze (insight_analyzer self) (collected_data self)) w = (Inl e', w1)"
    and ne: "collected_data self \<noteq> []" by simp_all
  from run_analysis_job_insight_unit [OF ne, of w] BaseAnalyzer_run_raising [OF inv] h
  have kept: "last_result (insight_analyzer ?self') = Some old"
    "insight_generator ?self' = insight_generator self"
    by simp_all
  obtain reports w4 where
    "report_models (model_generator ?self')
       (case last_results (model_analyzer ?self') of None \<Rightarrow> [] | Some xs \<Rightarrow> xs) [] w3
     = (reports, w4)"
    using report_models_returns by blast
  with kept h
  have "run_report_job ?self' w2 =
          (Inr \<lparr>insight_report =
                  Some [(''path'', file_path rep), (''title'', Some (title rep)),
                        (''status'', Some (status_value rep))],
                model_reports = reports, errors = []\<rparr>, w4)"
    by (simp add: run_report_job_def)
  then show "\<exists>reports w4.
             run_report_job ?self' w2 =
               (Inr \<lparr>insight_report =
                       Some [(''path'', file_path rep), (''title'', Some (title rep)),
                             (''status'', Some (status_value rep))],
                     model_reports = reports, errors = []\<rparr>, w4)"
    by blast
qed

lemma analysed_manager_parts:
  "collected_data analysed_manager = collected_data collected_manager"
  "insight_generator analysed_manager = plain_generator"
  "BaseAnalyzer.name (insight_analyzer analysed_manager) = ''insight_analyzer''"
  "analyze (insight_analyzer analysed_manager) = analyze insight_unit"
  "last_result (insight_analyzer analysed_manager) =
          Some \<lparr>AnalysisResult.status = AnalysisStatus.SUCCESS,
                result = Some \<lparr>insights = [''trend'']\<rparr>, insights = [], metadata = [],
                analyzed_at = 0, source = ''insight_analyzer'', errors = []\<rparr>"
  by (simp_all add: analysed_manager_def collected_manager_eq collected_world_eq stage_defs
        scenario_defs concrete_defs unit_defs eight_models_def)

lemma next_day_clock: "clock next_day = 1"
  by (simp add: next_day_def)

theorem failed_analysis_keeps_stale_result_witness:
  "last_result (fst (snd (BaseAnalyzer_run (insight_analyzer analysed_manager)
                            (collected_data analysed_manager) next_day)))
     = Some \<lparr>AnalysisResult.status = AnalysisStatus.SUCCESS,
             result = Some \<lparr>insights = [''trend'']\<rparr>, insights = [], metadata = [],
             analyzed_at = 0, source = ''insight_analyzer'', errors = []\<rparr>
   \<and> (\<exists>reports w4.
         run_report_job (fst (snd (run_analysis_job analysed_manager next_day)))
           (snd (snd (run_analysis_job analysed_manager next_day)))
         = (Inr \<lparr>insight_report =
                   Some [(''path'', None), (''title'', Some ''Daily report''),
                         (''status'', Some ''completed'')],
                 model_reports = reports, errors = []\<rparr>, w4))"
proof -
  let ?a = "insight_analyzer analysed_manager"
  let ?d = "collected_data analysed_manager"
  let ?w2 = "snd (snd (run_analysis_job analysed_manager next_day))"
  let ?old = "\<lparr>AnalysisResult.status = AnalysisStatus.SUCCESS,
             result = Some \<lparr>insights = [''trend'']\<rparr>, insights = [], metadata = [],
             analyzed_at = 0, source = ''insight_analyzer'', errors = []\<rparr>"
  let ?rep = "\<lparr>file_path = None, title = ''Daily report'', status_value = ''completed''\<rparr>"
  have raise: "invoke (Call (BaseAnalyzer.name ?a) ''analyze'') (analyze ?a ?d) next_day
                 = (Inl (Exception ''LLM timeout''),
                    next_day\<lparr>calls := calls next_day @ [Call (BaseAnalyzer.name ?a) ''analyze'']\<rparr>)"
    by (simp add: analysed_manager_parts insight_unit_def BaseAnalyzer_init_def invoke_def
          traced_def next_day_clock)
  have ne: "?d \<noteq> []"
    by (simp add: analysed_manager_parts collected_manager_eq)
  have old: "last_result ?a = Some ?old" "result ?old = Some \<lparr>insights = [''trend'']\<rparr>"
    by (simp_all add: analysed_manager_parts)
  have gen: "invoke (Call ''insight_generator'' ''generate'')
               (generate (insight_generator analysed_manager) \<lparr>insights = [''trend'']\<rparr> PPT) ?w2
             = (Inr ?rep, ?w2\<lparr>calls := calls ?w2 @ [Call ''insight_generator'' ''generate'']\<rparr>)"
    by (simp add: analysed_manager_parts plain_generator_def invoke_def traced_def returns_def)
  from failed_analysis_keeps_stale_result
         [of ?a ?d next_day "Exception ''LLM timeout''"
             "next_day\<lparr>calls := calls next_day @ [Call (BaseAnalyzer.name ?a) ''analyze'']\<rparr>"
             analysed_manager next_day "Exception ''LLM timeout''"
             "next_day\<lparr>calls := calls next_day @ [Call (BaseAnalyzer.name ?a) ''analyze'']\<rparr>"
             ?old "\<lparr>insights = [''trend'']\<rparr>" ?w2 ?rep
             "?w2\<lparr>calls := calls ?w2 @ [Call ''insight_generator'' ''generate'']\<rparr>"]
       raise ne old gen
  show ?thesis by simp
qed

end
